theory Spec2Isabelle
  imports Main "HOL-Library.Sublist"
begin

section \<open>The string functions of Go that the service uses\<close>

text \<open>
  Go strings are byte sequences; \<^typ>\<open>string\<close> is a list of bytes too. The service only
  ever splits and counts on the one-byte separator \<^verbatim>\<open>"/"\<close>, so the separator is a
  \<^typ>\<open>char\<close>. \<^verbatim>\<open>strings.Split("", "/")\<close> is the one-element slice holding the empty
  string, and a string with k separators splits into k + 1 segments.
\<close>

fun strings_Split :: "string \<Rightarrow> char \<Rightarrow> string list" where
  "strings_Split [] sep = [[]]"
| "strings_Split (c # cs) sep =
     (if c = sep then [] # strings_Split cs sep
      else (case strings_Split cs sep of
              [] \<Rightarrow> [[c]]
            | seg # segs \<Rightarrow> (c # seg) # segs))"

fun strings_Count :: "string \<Rightarrow> char \<Rightarrow> nat" where
  "strings_Count [] sep = 0"
| "strings_Count (c # cs) sep = (if c = sep then Suc (strings_Count cs sep) else strings_Count cs sep)"

fun strings_Contains :: "string \<Rightarrow> string \<Rightarrow> bool" where
  "strings_Contains [] substr = (substr = [])"
| "strings_Contains (c # cs) substr = (prefix substr (c # cs) \<or> strings_Contains cs substr)"

text \<open>
  \<^verbatim>\<open>strings.EqualFold\<close> compares under Unicode simple case folding. On strings of ASCII
  bytes that is equality after mapping \<^verbatim>\<open>A\<close>..\<^verbatim>\<open>Z\<close> to \<^verbatim>\<open>a\<close>..\<^verbatim>\<open>z\<close>, which is what is
  modelled; bytes outside the ASCII letters are compared as they are.
\<close>

definition toLower :: "char \<Rightarrow> char" where
  "toLower c = (let n = (of_char c :: nat) in if 65 \<le> n \<and> n \<le> 90 then char_of (n + 32) else c)"

definition strings_EqualFold :: "string \<Rightarrow> string \<Rightarrow> bool" where
  "strings_EqualFold s t = (map toLower s = map toLower t)"

section \<open>The data model\<close>

text \<open>
  A Go map is modelled as an association list: the order of the list is the order in
  which one \<^verbatim>\<open>range\<close> over the map visits the keys, which Go leaves unspecified, so a
  statement for every list is a statement for every iteration order.
\<close>

record RepoConfig =
  Events :: "string list"

record RoomConfig =
  Repos :: "(string \<times> RepoConfig) list"

record githubWebhookService =
  service_id :: string
  serviceUserID :: string
  webhookEndpointURL :: string
  ClientUserID :: string
  RealmID :: string
  SecretToken :: string
  Rooms :: "(string \<times> RoomConfig) list"

record echoService =
  echo_id :: string
  echo_serviceUserID :: string

text \<open>The values of the interface \<^verbatim>\<open>types.Service\<close> that the sources define.\<close>

datatype Service = GithubWebhookService githubWebhookService | EchoService echoService

fun ServiceID :: "Service \<Rightarrow> string" where
  "ServiceID (GithubWebhookService s) = service_id s"
| "ServiceID (EchoService e) = echo_id e"

fun ServiceType :: "Service \<Rightarrow> string" where
  "ServiceType (GithubWebhookService s) = ''github-webhook''"
| "ServiceType (EchoService e) = ''echo''"

text \<open>
  Errors are tagged by where they are made: \<open>Errorf\<close> is an error this file builds with
  \<^verbatim>\<open>fmt.Errorf\<close>; a \<open>foreign_error\<close> is one a collaborator returned, of which
  \<open>ErrorResponse\<close> is go-github's \<^verbatim>\<open>*github.ErrorResponse\<close> with the messages of its
  \<^verbatim>\<open>Errors\<close>.
\<close>

datatype foreign_error = ErrorResponse "string list" | OtherError string

datatype error = Errorf string | Foreign foreign_error

datatype panic = IndexOutOfRange | NilDereference

datatype 'a outcome = Panics panic | Returns 'a

text \<open>A value of \<^verbatim>\<open>interface{}\<close> as it occurs in a hook's \<^verbatim>\<open>Config\<close> map.\<close>

datatype interface_value = IfaceNil | IfaceString string | IfaceInt int | IfaceBool bool

record Hook =
  hook_ID :: "int option"
  hook_Name :: "string option"
  hook_Config :: "(string \<times> interface_value) list"
  hook_Events :: "string list"

record Response =
  StatusCode :: int

record AuthRealm =
  realm_ID :: string
  realm_Type :: string

record Repository =
  FullName :: "string option"

record HTTPError =
  Code :: int

datatype github_Client = Client string

type_synonym Request = string
type_synonym Message = string

subsection \<open>Effects\<close>

datatype level = Info | Print | Warn | Error

datatype field = FStr string | FErr error | FService githubWebhookService

text \<open>
  What a run does to the outside, in order: the log lines it writes and the calls it makes
  to its collaborators. \<open>DeleteService\<close> also records what the call returned.
\<close>

datatype effect =
    Log level string "(string \<times> field) list"
  | OnReceiveRequest Request string
  | GetTokenForUser string string
  | LoadAuthRealm string
  | CreateHook github_Client string string Hook
  | ListHooks github_Client string string
  | DeleteHook github_Client string string int
  | JoinRoom string
  | SendMessageEvent string string Message
  | DeleteService string "foreign_error option"
  | WriteHeader int

fun is_Log :: "effect \<Rightarrow> bool" where
  "is_Log (Log l m fs) = True"
| "is_Log e = False"

text \<open>The calls among some effects: what the collaborators have seen.\<close>

definition calls :: "effect list \<Rightarrow> effect list" where
  "calls es = filter (\<lambda>e. \<not> is_Log e) es"

text \<open>
  The collaborators, none of which is part of these sources: the webhook parser, the token
  lookup, the service database, the provider's REST client and the chat client. Each
  answers as a function of its arguments and of the calls made so far, so that a
  collaborator may answer the same call differently the second time.
\<close>

record env =
  webhook_OnReceiveRequest :: "effect list \<Rightarrow> Request \<Rightarrow> string \<Rightarrow> HTTPError + (string \<times> Repository \<times> Message)"
  getTokenForUser :: "effect list \<Rightarrow> string \<Rightarrow> string \<Rightarrow> string \<times> foreign_error option"
  database_LoadAuthRealm :: "effect list \<Rightarrow> string \<Rightarrow> foreign_error + AuthRealm"
  database_DeleteService :: "effect list \<Rightarrow> string \<Rightarrow> foreign_error option"
  github_CreateHook :: "effect list \<Rightarrow> github_Client \<Rightarrow> string \<Rightarrow> string \<Rightarrow> Hook \<Rightarrow> Response option \<times> foreign_error option"
  github_ListHooks :: "effect list \<Rightarrow> github_Client \<Rightarrow> string \<Rightarrow> string \<Rightarrow> foreign_error + Hook list"
  github_DeleteHook :: "effect list \<Rightarrow> github_Client \<Rightarrow> string \<Rightarrow> string \<Rightarrow> int \<Rightarrow> foreign_error option"
  matrix_JoinRoom :: "effect list \<Rightarrow> string \<Rightarrow> foreign_error option"
  matrix_SendMessageEvent :: "effect list \<Rightarrow> string \<Rightarrow> string \<Rightarrow> Message \<Rightarrow> foreign_error option"

section \<open>repoList\<close>

text \<open>The inner loop of \<^verbatim>\<open>repoList\<close> that looks for \<^verbatim>\<open>ownerRepo\<close> among the repos so far.\<close>

fun repo_exists :: "string \<Rightarrow> string list \<Rightarrow> bool" where
  "repo_exists ownerRepo [] = False"
| "repo_exists ownerRepo (r # rs) = (if r = ownerRepo then True else repo_exists ownerRepo rs)"

definition bad_key_log :: "string \<Rightarrow> effect" where
  "bad_key_log ownerRepo = Log Error ''Bad owner/repo key in config'' [(''repo'', FStr ownerRepo)]"

text \<open>The loop over one room's \<^verbatim>\<open>Repos\<close>, from the repos gathered so far.\<close>

fun repoList_room :: "(string \<times> RepoConfig) list \<Rightarrow> string list \<Rightarrow> string list \<times> effect list" where
  "repoList_room [] repos = (repos, [])"
| "repoList_room ((ownerRepo, repoConfig) # rest) repos =
     (if strings_Count ownerRepo (CHR ''/'') \<noteq> 1 then
        (let (repos', es) = repoList_room rest repos in (repos', bad_key_log ownerRepo # es))
      else if repo_exists ownerRepo repos then repoList_room rest repos
      else repoList_room rest (repos @ [ownerRepo]))"

fun repoList_rooms :: "(string \<times> RoomConfig) list \<Rightarrow> string list \<Rightarrow> string list \<times> effect list" where
  "repoList_rooms [] repos = (repos, [])"
| "repoList_rooms ((roomID, roomConfig) # rest) repos =
     (let (repos1, es1) = repoList_room (Repos roomConfig) repos;
          (repos2, es2) = repoList_rooms rest repos1
      in (repos2, es1 @ es2))"

definition repoList :: "githubWebhookService \<Rightarrow> string list \<times> effect list" where
  "repoList s = repoList_rooms (Rooms s) []"

section \<open>util.Difference\<close>

text \<open>
  Modelled from the spec: \<^verbatim>\<open>util.Difference\<close> is called by \<^verbatim>\<open>Register\<close> and
  \<^verbatim>\<open>PostRegister\<close> and its package is not among the sources. The spec gives it as
  \<^verbatim>\<open>diff(newRepos, oldRepos) -> (added, removed)\<close>, the set difference in both
  directions, the order of the two results unspecified. The model keeps the elements in
  the order of their list; the statements below read the results as sets.
\<close>

definition Difference :: "string list \<Rightarrow> string list \<Rightarrow> string list \<times> string list" where
  "Difference a b = (filter (\<lambda>x. x \<notin> set b) a, filter (\<lambda>x. x \<notin> set a) b)"

section \<open>githubClientFor and loadRealm\<close>

definition githubClientFor ::
  "env \<Rightarrow> githubWebhookService \<Rightarrow> string \<Rightarrow> bool \<Rightarrow> effect list \<Rightarrow> github_Client option \<times> effect list" where
  "githubClientFor env s userID allowUnauth past =
     (let (token, err) = getTokenForUser env past (RealmID s) userID;
          es = GetTokenForUser (RealmID s) userID #
               (case err of
                  None \<Rightarrow> []
                | Some e \<Rightarrow> [Log Print ''Failed to get token for user''
                     [(''error'', FErr (Foreign e)), (''user_id'', FStr userID), (''realm_id'', FStr (RealmID s))]])
      in if token \<noteq> [] then (Some (Client token), es)
         else if allowUnauth then (Some (Client []), es)
         else (None, es))"

definition loadRealm :: "env \<Rightarrow> githubWebhookService \<Rightarrow> effect list \<Rightarrow> (error + AuthRealm) \<times> effect list" where
  "loadRealm env s past =
     (if RealmID s = [] then (Inl (Errorf ''Missing RealmID''), [])
      else (case database_LoadAuthRealm env past (RealmID s) of
              Inl err \<Rightarrow> (Inl (Foreign err), [LoadAuthRealm (RealmID s)])
            | Inr realm \<Rightarrow>
                if realm_Type realm \<noteq> ''github''
                then (Inl (Errorf (''Realm is of type '' @ [CHR 0x27] @ realm_Type realm @ [CHR 0x27]
                                     @ '', not '' @ [CHR 0x27] @ ''github'' @ [CHR 0x27])),
                      [LoadAuthRealm (RealmID s)])
                else (Inr realm, [LoadAuthRealm (RealmID s)])))"

section \<open>createHook\<close>

text \<open>The loop over \<^verbatim>\<open>errResponse.Errors\<close> that looks for an "already exists" message.\<close>

fun already_exists :: "string list \<Rightarrow> bool" where
  "already_exists [] = False"
| "already_exists (m # ms) = (if strings_Contains m ''already exists'' then True else already_exists ms)"

definition new_hook :: "githubWebhookService \<Rightarrow> Hook" where
  "new_hook s =
     \<lparr> hook_ID = None,
       hook_Name = Some ''web'',
       hook_Config = [(''content_type'', IfaceString ''json''), (''url'', IfaceString (webhookEndpointURL s))]
                     @ (if SecretToken s \<noteq> [] then [(''secret'', IfaceString (SecretToken s))] else []),
       hook_Events = [''push'', ''pull_request'', ''issues'', ''issue_comment'', ''pull_request_review_comment''] \<rparr>"

text \<open>
  \<^verbatim>\<open>o[0]\<close> and \<^verbatim>\<open>o[1]\<close> panic when the split has fewer than two segments, and
  \<^verbatim>\<open>res.StatusCode\<close> panics when the client returned no response.
\<close>

definition createHook ::
  "env \<Rightarrow> githubWebhookService \<Rightarrow> github_Client \<Rightarrow> string \<Rightarrow> effect list \<Rightarrow> error option outcome \<times> effect list" where
  "createHook env s cli ownerRepo past =
     (case strings_Split ownerRepo (CHR ''/'') of
        owner # repo # segs \<Rightarrow>
          (let (res, err) = github_CreateHook env past cli owner repo (new_hook s);
               call = CreateHook cli owner repo (new_hook s)
           in (case res of
                 None \<Rightarrow> (Panics NilDereference, [call])
               | Some r \<Rightarrow>
                   if StatusCode r = 422 then
                     (case err of
                        Some (ErrorResponse errors) \<Rightarrow>
                          if already_exists errors
                          then (Returns None, [call, Log Print ''422 : Hook already exists'' [(''repo'', FStr ownerRepo)]])
                          else (Returns (map_option Foreign err), [call])
                      | _ \<Rightarrow> (Returns (map_option Foreign err), [call]))
                   else (Returns (map_option Foreign err), [call])))
      | _ \<Rightarrow> (Panics IndexOutOfRange, []))"

section \<open>deleteHook\<close>

text \<open>The loop over the listed hooks: the first hook whose \<^verbatim>\<open>Config["url"]\<close> is the endpoint.\<close>

fun find_hook :: "string \<Rightarrow> Hook list \<Rightarrow> Hook option \<times> effect list" where
  "find_hook endpoint [] = (None, [])"
| "find_hook endpoint (h # hs) =
     (case map_of (hook_Config h) ''url'' of
        None \<Rightarrow> (let (r, es) = find_hook endpoint hs in (r, Log Print ''Ignoring nil config.url'' [] # es))
      | Some IfaceNil \<Rightarrow> (let (r, es) = find_hook endpoint hs in (r, Log Print ''Ignoring nil config.url'' [] # es))
      | Some (IfaceString hookURL) \<Rightarrow> if hookURL = endpoint then (Some h, []) else find_hook endpoint hs
      | Some other \<Rightarrow> (let (r, es) = find_hook endpoint hs in (r, Log Print ''Ignoring non-string config.url'' [] # es)))"

definition removing_hook_log :: "githubWebhookService \<Rightarrow> string \<Rightarrow> string \<Rightarrow> effect" where
  "removing_hook_log s owner repo =
     Log Info ''Removing hook'' [(''endpoint'', FStr (webhookEndpointURL s)), (''repo'', FStr (owner @ ''/'' @ repo))]"

definition deleteHook ::
  "env \<Rightarrow> githubWebhookService \<Rightarrow> string \<Rightarrow> string \<Rightarrow> effect list \<Rightarrow> error option outcome \<times> effect list" where
  "deleteHook env s owner repo past =
     (let es0 = [removing_hook_log s owner repo];
          (cli, es1) = githubClientFor env s (ClientUserID s) False past
      in (case cli of
            None \<Rightarrow>
              (Returns (Some (Errorf ''no authenticated client exists for user ID'')),
               es0 @ es1 @ [Log Print ''Cannot delete webhook: no authenticated client exists for user ID.''
                              [(''user_id'', FStr (ClientUserID s))]])
          | Some c \<Rightarrow>
              (case github_ListHooks env (past @ calls es1) c owner repo of
                 Inl err \<Rightarrow> (Returns (Some (Foreign err)), es0 @ es1 @ [ListHooks c owner repo])
               | Inr hooks \<Rightarrow>
                   (let (hook, es2) = find_hook (webhookEndpointURL s) hooks;
                        es = es0 @ es1 @ [ListHooks c owner repo] @ es2
                    in (case hook of
                          None \<Rightarrow>
                            (Returns (Some (Errorf (''Failed to find hook with endpoint: '' @ webhookEndpointURL s))), es)
                        | Some h \<Rightarrow>
                            (case hook_ID h of
                               None \<Rightarrow> (Panics NilDereference, es)
                             | Some i \<Rightarrow>
                                 (Returns (map_option Foreign (github_DeleteHook env (past @ calls es) c owner repo i)),
                                  es @ [DeleteHook c owner repo i])))))))"

section \<open>Register\<close>

definition cast_log :: "Service \<Rightarrow> effect" where
  "cast_log oldService =
     Log Print ''Cannot cast old github service to GithubWebhookService''
       [(''service_id'', FStr (ServiceID oldService)), (''service_type'', FStr (ServiceType oldService))]"

text \<open>The loop of \<^verbatim>\<open>Register\<close> over \<^verbatim>\<open>newRepos\<close>; it returns at the first hook that fails.\<close>

fun createHooks ::
  "env \<Rightarrow> githubWebhookService \<Rightarrow> github_Client \<Rightarrow> string list \<Rightarrow> effect list \<Rightarrow> error option outcome \<times> effect list" where
  "createHooks env s cli [] past = (Returns None, [])"
| "createHooks env s cli (r # rs) past =
     (case createHook env s cli r past of
        (Panics p, es) \<Rightarrow> (Panics p, es)
      | (Returns (Some err), es) \<Rightarrow>
          (Returns (Some err), es @ [Log Error ''Failed to create webhook'' [(''repo'', FStr r), (''error'', FErr err)]])
      | (Returns None, es) \<Rightarrow>
          (let es1 = es @ [Log Info ''Created webhook'' [(''repo'', FStr r)]];
               (res, es2) = createHooks env s cli rs (past @ calls es1)
           in (res, es1 @ es2)))"

fun joinRooms :: "env \<Rightarrow> (string \<times> RoomConfig) list \<Rightarrow> effect list \<Rightarrow> error option \<times> effect list" where
  "joinRooms env [] past = (None, [])"
| "joinRooms env ((roomID, roomConfig) # rest) past =
     (case matrix_JoinRoom env past roomID of
        Some err \<Rightarrow> (Some (Foreign err), [JoinRoom roomID])
      | None \<Rightarrow> (let (res, es) = joinRooms env rest (past @ [JoinRoom roomID]) in (res, JoinRoom roomID # es)))"

definition joinWebhookRooms :: "env \<Rightarrow> githubWebhookService \<Rightarrow> effect list \<Rightarrow> error option \<times> effect list" where
  "joinWebhookRooms env s past = joinRooms env (Rooms s) past"

text \<open>
  \<^verbatim>\<open>Register\<close> from \<^verbatim>\<open>reposForWebhooks := s.repoList()\<close> to its end, given the client and
  the old repos that the first part of \<^verbatim>\<open>Register\<close> found.
\<close>

definition Register_hooks ::
  "env \<Rightarrow> githubWebhookService \<Rightarrow> github_Client \<Rightarrow> string list \<Rightarrow> effect list \<Rightarrow> error option outcome \<times> effect list" where
  "Register_hooks env s cli oldRepos past =
     (let (reposForWebhooks, es1) = repoList s;
          (newRepos, removedRepos) = Difference reposForWebhooks oldRepos
      in if length reposForWebhooks = 0 \<and> length removedRepos = 0
         then (Returns (Some (Errorf ''No webhooks specified.'')), es1)
         else (case createHooks env s cli newRepos (past @ calls es1) of
                 (Panics p, es2) \<Rightarrow> (Panics p, es1 @ es2)
               | (Returns (Some err), es2) \<Rightarrow> (Returns (Some err), es1 @ es2)
               | (Returns None, es2) \<Rightarrow>
                   (case joinWebhookRooms env s (past @ calls (es1 @ es2)) of
                      (Some err, es3) \<Rightarrow> (Returns (Some err), es1 @ es2 @ es3)
                    | (None, es3) \<Rightarrow>
                        (Returns None, es1 @ es2 @ es3 @ [Log Info ''%+v'' [(''s'', FService s)]]))))"

text \<open>The old repos as \<^verbatim>\<open>Register\<close> finds them: a failed cast is logged and leaves them empty.\<close>

definition Register_oldRepos :: "Service option \<Rightarrow> string list \<times> effect list" where
  "Register_oldRepos oldService =
     (case oldService of
        None \<Rightarrow> ([], [])
      | Some (GithubWebhookService old) \<Rightarrow> repoList old
      | Some other \<Rightarrow> ([], [cast_log other]))"

definition Register ::
  "env \<Rightarrow> githubWebhookService \<Rightarrow> Service option \<Rightarrow> effect list \<Rightarrow> error option outcome \<times> effect list" where
  "Register env s oldService past =
     (if RealmID s = [] \<or> ClientUserID s = []
      then (Returns (Some (Errorf ''RealmID and ClientUserID is required'')), [])
      else (case loadRealm env s past of
              (Inl err, es1) \<Rightarrow> (Returns (Some err), es1)
            | (Inr realm, es1) \<Rightarrow>
                (case githubClientFor env s (ClientUserID s) False (past @ calls es1) of
                   (None, es2) \<Rightarrow>
                     (Returns (Some (Errorf (''User '' @ ClientUserID s
                                 @ '' does not have a Github auth session with realm '' @ realm_ID realm @ ''.''))),
                      es1 @ es2)
                 | (Some cli, es2) \<Rightarrow>
                     (let (oldRepos, es3) = Register_oldRepos oldService;
                          (res, es4) = Register_hooks env s cli oldRepos (past @ calls (es1 @ es2 @ es3))
                      in (res, es1 @ es2 @ es3 @ es4)))))"

section \<open>PostRegister\<close>

text \<open>
  The loop of \<^verbatim>\<open>PostRegister\<close> over \<^verbatim>\<open>removedRepos\<close>: \<^verbatim>\<open>segs[0]\<close> and \<^verbatim>\<open>segs[1]\<close> are
  read without a check of the length, and a failed delete is logged and passed over.
\<close>

fun removeHooks ::
  "env \<Rightarrow> githubWebhookService \<Rightarrow> string list \<Rightarrow> effect list \<Rightarrow> unit outcome \<times> effect list" where
  "removeHooks env s [] past = (Returns (), [])"
| "removeHooks env s (r # rs) past =
     (case strings_Split r (CHR ''/'') of
        seg0 # seg1 # segs \<Rightarrow>
          (case deleteHook env s seg0 seg1 past of
             (Panics p, es) \<Rightarrow> (Panics p, es)
           | (Returns err, es) \<Rightarrow>
               (let es1 = es @ (case err of
                                  None \<Rightarrow> []
                                | Some e \<Rightarrow> [Log Warn ''Failed to remove webhook'' [(''error'', FErr e), (''repo'', FStr r)]]);
                    (res, es2) = removeHooks env s rs (past @ calls es1)
                in (res, es1 @ es2)))
      | _ \<Rightarrow> (Panics IndexOutOfRange, []))"

text \<open>
  \<^verbatim>\<open>PostRegister\<close> from \<^verbatim>\<open>newRepos := s.repoList()\<close> to its end, given the old repos.
\<close>

definition PostRegister_cleanup ::
  "env \<Rightarrow> githubWebhookService \<Rightarrow> string list \<Rightarrow> effect list \<Rightarrow> unit outcome \<times> effect list" where
  "PostRegister_cleanup env s oldRepos past =
     (let (newRepos, es1) = repoList s;
          (addedRepos, removedRepos) = Difference newRepos oldRepos
      in (case removeHooks env s removedRepos (past @ calls es1) of
            (Panics p, es2) \<Rightarrow> (Panics p, es1 @ es2)
          | (Returns u, es2) \<Rightarrow>
              if length newRepos = 0 then
                (let res = database_DeleteService env (past @ calls (es1 @ es2)) (service_id s);
                     fields = [(''service_type'', FStr ''github-webhook''), (''service_id'', FStr (service_id s))]
                 in (Returns (),
                     es1 @ es2
                     @ [Log Info ''Removing service as no webhooks are registered.'' fields,
                        DeleteService (service_id s) res]
                     @ (case res of
                          None \<Rightarrow> []
                        | Some e \<Rightarrow> [Log Error ''Failed to delete service'' (fields @ [(''error'', FErr (Foreign e))])])))
              else (Returns (), es1 @ es2)))"

definition PostRegister ::
  "env \<Rightarrow> githubWebhookService \<Rightarrow> Service option \<Rightarrow> effect list \<Rightarrow> unit outcome \<times> effect list" where
  "PostRegister env s oldService past =
     (case oldService of
        None \<Rightarrow> PostRegister_cleanup env s [] past
      | Some (GithubWebhookService old) \<Rightarrow>
          (let (oldRepos, es0) = repoList old;
               (res, es) = PostRegister_cleanup env s oldRepos (past @ calls es0)
           in (res, es0 @ es))
      | Some other \<Rightarrow> (Returns (), [cast_log other]))"

section \<open>OnReceiveWebhook\<close>

text \<open>The loop over \<^verbatim>\<open>repoConfig.Events\<close> that sets \<^verbatim>\<open>notifyRoom\<close>.\<close>

fun notifyRoom :: "string \<Rightarrow> string list \<Rightarrow> bool" where
  "notifyRoom evType [] = False"
| "notifyRoom evType (notifyType # rest) = (if evType = notifyType then True else notifyRoom evType rest)"

definition send_notification ::
  "env \<Rightarrow> string \<Rightarrow> string \<Rightarrow> Message \<Rightarrow> string \<Rightarrow> effect list \<Rightarrow> effect list" where
  "send_notification env evType fullName msg roomID past =
     [Log Print ''Sending notification to room''
        [(''event'', FStr evType), (''repo'', FStr fullName), (''msg'', FStr msg), (''room_id'', FStr roomID)],
      SendMessageEvent roomID ''m.room.message'' msg]
     @ (case matrix_SendMessageEvent env past roomID ''m.room.message'' msg of
          None \<Rightarrow> []
        | Some e \<Rightarrow> [Log Print ''Failed to send notification to room.''
             [(''event'', FStr evType), (''repo'', FStr fullName), (''error'', FErr (Foreign e)), (''room_id'', FStr roomID)]])"

text \<open>
  The loop over one room's \<^verbatim>\<open>Repos\<close>; the first component tells whether it set
  \<^verbatim>\<open>repoExistsInConfig\<close>.
\<close>

fun notify_repos ::
  "env \<Rightarrow> string \<Rightarrow> string \<Rightarrow> Message \<Rightarrow> string \<Rightarrow> (string \<times> RepoConfig) list \<Rightarrow> effect list \<Rightarrow> bool \<times> effect list" where
  "notify_repos env evType fullName msg roomID [] past = (False, [])"
| "notify_repos env evType fullName msg roomID ((ownerRepo, repoConfig) # rest) past =
     (if \<not> strings_EqualFold fullName ownerRepo then notify_repos env evType fullName msg roomID rest past
      else (let es1 = (if notifyRoom evType (Events repoConfig)
                       then send_notification env evType fullName msg roomID past else []);
                (found, es2) = notify_repos env evType fullName msg roomID rest (past @ calls es1)
            in (True, es1 @ es2)))"

fun notify_rooms ::
  "env \<Rightarrow> string \<Rightarrow> string \<Rightarrow> Message \<Rightarrow> (string \<times> RoomConfig) list \<Rightarrow> effect list \<Rightarrow> bool \<times> effect list" where
  "notify_rooms env evType fullName msg [] past = (False, [])"
| "notify_rooms env evType fullName msg ((roomID, roomConfig) # rest) past =
     (let (found1, es1) = notify_repos env evType fullName msg roomID (Repos roomConfig) past;
          (found2, es2) = notify_rooms env evType fullName msg rest (past @ calls es1)
      in (found1 \<or> found2, es1 @ es2))"

definition OnReceiveWebhook ::
  "env \<Rightarrow> githubWebhookService \<Rightarrow> Request \<Rightarrow> effect list \<Rightarrow> unit outcome \<times> effect list" where
  "OnReceiveWebhook env s req past =
     (let es0 = [OnReceiveRequest req (SecretToken s)]
      in (case webhook_OnReceiveRequest env past req (SecretToken s) of
            Inl err \<Rightarrow> (Returns (), es0 @ [WriteHeader (Code err)])
          | Inr (evType, repo, msg) \<Rightarrow>
              (case FullName repo of
                 None \<Rightarrow> (Panics NilDereference, es0)
               | Some fullName \<Rightarrow>
                   (let fields = [(''event'', FStr evType), (''repo'', FStr fullName)];
                        (repoExistsInConfig, es1) = notify_rooms env evType fullName msg (Rooms s) (past @ calls es0)
                    in if \<not> repoExistsInConfig then
                         (case strings_Split fullName (CHR ''/'') of
                            [seg0, seg1] \<Rightarrow>
                              (case deleteHook env s seg0 seg1 (past @ calls (es0 @ es1)) of
                                 (Panics p, es2) \<Rightarrow> (Panics p, es0 @ es1 @ es2)
                               | (Returns err, es2) \<Rightarrow>
                                   (Returns (),
                                    es0 @ es1 @ es2
                                    @ [case err of
                                         Some e \<Rightarrow> Log Print ''Failed to delete webhook'' (fields @ [(''error'', FErr e)])
                                       | None \<Rightarrow> Log Info ''Deleted webhook'' fields,
                                       WriteHeader 200]))
                          | _ \<Rightarrow>
                              (Returns (),
                               es0 @ es1 @ [Log Error ''Received event with malformed owner/repo.'' fields, WriteHeader 400]))
                       else (Returns (), es0 @ es1 @ [WriteHeader 200])))))"

section \<open>What the statements speak of\<close>

text \<open>All the repo keys of a configuration, room after room, in the order of iteration.\<close>

definition config_keys :: "githubWebhookService \<Rightarrow> string list" where
  "config_keys s = concat (map (\<lambda>(roomID, roomConfig). map fst (Repos roomConfig)) (Rooms s))"

text \<open>
  The spec's words for a well-formed repo key: it splits into exactly two non-empty
  segments on \<^verbatim>\<open>/\<close>.
\<close>

definition spec_two_nonempty_segments :: "string \<Rightarrow> bool" where
  "spec_two_nonempty_segments k =
     (case strings_Split k (CHR ''/'') of
        [owner, repo] \<Rightarrow> owner \<noteq> [] \<and> repo \<noteq> []
      | _ \<Rightarrow> False)"

text \<open>The rooms that were sent a message, one entry for each send.\<close>

fun rooms_notified :: "effect list \<Rightarrow> string list" where
  "rooms_notified [] = []"
| "rooms_notified (SendMessageEvent roomID evType msg # es) = roomID # rooms_notified es"
| "rooms_notified (e # es) = rooms_notified es"

text \<open>
  The attempts to delete a hook: \<^verbatim>\<open>deleteHook\<close> starts by logging "Removing hook" with
  the repo it was called for, and nothing else writes that line.
\<close>

fun delete_attempt :: "effect \<Rightarrow> string option" where
  "delete_attempt (Log l m fs) =
     (if l = Info \<and> m = ''Removing hook''
      then (case map_of fs ''repo'' of Some (FStr r) \<Rightarrow> Some r | _ \<Rightarrow> None)
      else None)"
| "delete_attempt e = None"

definition delete_attempts :: "effect list \<Rightarrow> string list" where
  "delete_attempts es = List.map_filter delete_attempt es"

text \<open>The bindings of a configuration that match a delivered repo name, as the room of each.\<close>

definition matching_rooms :: "githubWebhookService \<Rightarrow> string \<Rightarrow> string list" where
  "matching_rooms s fullName =
     concat (map (\<lambda>(roomID, roomConfig).
        map (\<lambda>kv. roomID) (filter (\<lambda>(ownerRepo, repoConfig). strings_EqualFold fullName ownerRepo) (Repos roomConfig)))
       (Rooms s))"

text \<open>Those of them whose events hold the delivered event type.\<close>

definition subscribed_rooms :: "githubWebhookService \<Rightarrow> string \<Rightarrow> string \<Rightarrow> string list" where
  "subscribed_rooms s fullName evType =
     concat (map (\<lambda>(roomID, roomConfig).
        map (\<lambda>kv. roomID)
          (filter (\<lambda>(ownerRepo, repoConfig). strings_EqualFold fullName ownerRepo \<and> evType \<in> set (Events repoConfig))
             (Repos roomConfig)))
       (Rooms s))"

text \<open>
  The provider lists hooks with their ids: \<^verbatim>\<open>*hook.ID\<close> in \<^verbatim>\<open>deleteHook\<close> is a nil
  dereference otherwise.
\<close>

definition hooks_have_IDs :: "env \<Rightarrow> bool" where
  "hooks_have_IDs env =
     (\<forall>past c owner repo hooks h.
        github_ListHooks env past c owner repo = Inr hooks \<longrightarrow> h \<in> set hooks \<longrightarrow> hook_ID h \<noteq> None)"

text \<open>
  Modelled from the spec: the store of configurations behind \<^verbatim>\<open>database.GetServiceDB()\<close>
  is not among the sources. The spec gives it as a key-value store with
  \<^verbatim>\<open>get(id)\<close>, \<^verbatim>\<open>put(config)\<close> and \<^verbatim>\<open>delete(id)\<close>; of these the service calls only the
  delete. The ids in the store after some effects: a delete that returned no error has
  removed its id, one that returned an error has changed nothing.
\<close>

fun ServiceDB_after :: "string list \<Rightarrow> effect list \<Rightarrow> string list" where
  "ServiceDB_after ids [] = ids"
| "ServiceDB_after ids (DeleteService i None # es) = ServiceDB_after (removeAll i ids) es"
| "ServiceDB_after ids (e # es) = ServiceDB_after ids es"

section \<open>Example configurations and collaborators\<close>

definition hook_at :: "int \<Rightarrow> interface_value \<Rightarrow> Hook" where
  "hook_at i url =
     \<lparr> hook_ID = Some i, hook_Name = Some ''web'', hook_Config = [(''content_type'', IfaceString ''json''), (''url'', url)],
       hook_Events = [''push''] \<rparr>"

text \<open>
  Collaborators that work: every user has a token, every realm is a github realm, the
  provider answers a second create of the same hook with the conflict 422, and the repo
  has hooks of others beside ours. Sending to room \<^verbatim>\<open>!R1\<close> fails.
\<close>

definition env_ok :: env where
  "env_ok =
     \<lparr> webhook_OnReceiveRequest = (\<lambda>past req secret. Inr (''push'', \<lparr> FullName = Some ''acme/widgets'' \<rparr>, ''pushed'')),
       getTokenForUser = (\<lambda>past realm user. (''token'', None)),
       database_LoadAuthRealm = (\<lambda>past realm. Inr \<lparr> realm_ID = realm, realm_Type = ''github'' \<rparr>),
       database_DeleteService = (\<lambda>past i. None),
       github_CreateHook = (\<lambda>past c owner repo h.
          if CreateHook c owner repo h \<in> set past
          then (Some \<lparr> StatusCode = 422 \<rparr>, Some (ErrorResponse [''Hook already exists on this repository'']))
          else (Some \<lparr> StatusCode = 201 \<rparr>, None)),
       github_ListHooks = (\<lambda>past c owner repo. Inr
          [\<lparr> hook_ID = Some 1, hook_Name = Some ''web'', hook_Config = [], hook_Events = [] \<rparr>,
           hook_at 2 (IfaceInt 5),
           hook_at 3 (IfaceString ''https://other.example/hook''),
           hook_at 4 (IfaceString ''https://neb.example/hook''),
           hook_at 5 (IfaceString ''https://neb.example/hook'')]),
       github_DeleteHook = (\<lambda>past c owner repo i. None),
       matrix_JoinRoom = (\<lambda>past roomID. None),
       matrix_SendMessageEvent = (\<lambda>past roomID evType msg. if roomID = ''!R1'' then Some (OtherError ''send failed'') else None) \<rparr>"

definition service_with :: "(string \<times> RoomConfig) list \<Rightarrow> githubWebhookService" where
  "service_with rooms =
     \<lparr> service_id = ''svc'', serviceUserID = ''@neb:hs'', webhookEndpointURL = ''https://neb.example/hook'',
       ClientUserID = ''@alice:hs'', RealmID = ''github_realm'', SecretToken = ''s3cret'', Rooms = rooms \<rparr>"

definition room_with :: "(string \<times> string list) list \<Rightarrow> RoomConfig" where
  "room_with repos = \<lparr> Repos = map (\<lambda>(ownerRepo, events). (ownerRepo, \<lparr> Events = events \<rparr>)) repos \<rparr>"

text \<open>The configuration of the spec's routing example, with a second key for R1.\<close>

definition widgets_service :: githubWebhookService where
  "widgets_service =
     service_with [(''!R1'', room_with [(''Acme/Widgets'', [''push'']), (''justonename'', [''push''])]),
                   (''!R2'', room_with [(''acme/widgets'', [''issues'']), (''Acme/Widgets'', [''issues'', ''push''])])]"

text \<open>The same collaborators, but every realm in the database is a jira realm.\<close>

definition env_jira_realm :: env where
  "env_jira_realm =
     env_ok \<lparr> database_LoadAuthRealm := (\<lambda>past realm. Inr \<lparr> realm_ID = realm, realm_Type = ''jira'' \<rparr>) \<rparr>"

text \<open>
  The checks of \<^verbatim>\<open>Register\<close> that come before the guard on the repos: both ids are set,
  the realm loads, and a client resolves for the user.
\<close>

definition Register_reaches_guard :: "env \<Rightarrow> githubWebhookService \<Rightarrow> effect list \<Rightarrow> bool" where
  "Register_reaches_guard env s past =
     (RealmID s \<noteq> [] \<and> ClientUserID s \<noteq> [] \<and>
      (case loadRealm env s past of
         (Inl err, es) \<Rightarrow> False
       | (Inr realm, es) \<Rightarrow> fst (githubClientFor env s (ClientUserID s) False (past @ calls es)) \<noteq> None))"

text \<open>
  The spec's words for the answer that \<^verbatim>\<open>createHook\<close> takes as success: a conflict
  response (422) whose error detail says that the hook already exists.
\<close>

definition conflict_already_exists :: "Response \<Rightarrow> foreign_error option \<Rightarrow> bool" where
  "conflict_already_exists res err =
     (StatusCode res = 422 \<and>
      (case err of
         Some (ErrorResponse errors) \<Rightarrow> list_ex (\<lambda>m. strings_Contains m ''already exists'') errors
       | _ \<Rightarrow> False))"

text \<open>
  The spec's words for the hook that \<^verbatim>\<open>deleteHook\<close> deletes: the first listed hook whose
  \<^verbatim>\<open>url\<close> configuration value is the string that is the service's endpoint.
\<close>

definition endpoint_hook :: "githubWebhookService \<Rightarrow> Hook list \<Rightarrow> Hook option" where
  "endpoint_hook s hooks =
     find (\<lambda>h. map_of (hook_Config h) ''url'' = Some (IfaceString (webhookEndpointURL s))) hooks"

text \<open>Collaborators where no user has a token, and where the repo has only a hook of others.\<close>

definition env_no_token :: env where
  "env_no_token = env_ok \<lparr> getTokenForUser := (\<lambda>past realm user. ([], Some (OtherError ''no session''))) \<rparr>"

definition env_no_hooks :: env where
  "env_no_hooks =
     env_ok \<lparr> github_ListHooks := (\<lambda>past c owner repo. Inr [hook_at 3 (IfaceString ''https://other.example/hook'')]) \<rparr>"

text \<open>An old service of another type, as \<^verbatim>\<open>echo.go\<close> defines it.\<close>

definition echo_service :: echoService where
  "echo_service = \<lparr> echo_id = ''echo'', echo_serviceUserID = ''@neb:hs'' \<rparr>"

text \<open>The status codes written to the response.\<close>

fun responses :: "effect list \<Rightarrow> int list" where
  "responses [] = []"
| "responses (WriteHeader code # es) = code # responses es"
| "responses (e # es) = responses es"

text \<open>Collaborators whose webhook parser accepts the request as an event of a repo.\<close>

definition delivering :: "env \<Rightarrow> string \<Rightarrow> string \<Rightarrow> env" where
  "delivering env evType fullName =
     env \<lparr> webhook_OnReceiveRequest := (\<lambda>past req secret. Inr (evType, \<lparr> FullName = Some fullName \<rparr>, ''pushed'')) \<rparr>"

text \<open>
  What the last step of \<^verbatim>\<open>PostRegister\<close> does when no repo is left: it asks the database
  to delete the service and logs a failure.
\<close>

definition prune_effects :: "env \<Rightarrow> githubWebhookService \<Rightarrow> effect list \<Rightarrow> effect list" where
  "prune_effects env s past' =
     (let res = database_DeleteService env past' (service_id s);
          fields = [(''service_type'', FStr ''github-webhook''), (''service_id'', FStr (service_id s))]
      in [Log Info ''Removing service as no webhooks are registered.'' fields, DeleteService (service_id s) res]
         @ (case res of
              None \<Rightarrow> []
            | Some e \<Rightarrow> [Log Error ''Failed to delete service'' (fields @ [(''error'', FErr (Foreign e))])]))"

section \<open>Properties\<close>

subsection \<open>Strings\<close>

lemma Split_not_Nil: "strings_Split s sep \<noteq> []"
  by (induction s) (auto split: list.splits)

lemma length_Split: "length (strings_Split s sep) = Suc (strings_Count s sep)"
  by (induction s) (auto split: list.splits simp: Split_not_Nil)

lemma Count_one_iff: "strings_Count k sep = 1 \<longleftrightarrow> length (strings_Split k sep) = 2"
  by (simp add: length_Split)

subsection \<open>repoList\<close>

lemma repo_exists_iff: "repo_exists k rs = (k \<in> set rs)"
  by (induction rs) auto

lemma repoList_room_set:
  "set (fst (repoList_room kvs repos)) = set repos \<union> {k \<in> fst ` set kvs. strings_Count k (CHR ''/'') = 1}"
proof (induction kvs arbitrary: repos)
  case Nil
  then show ?case by simp
next
  case (Cons kv kvs)
  obtain ownerRepo repoConfig where kv: "kv = (ownerRepo, repoConfig)" by (cases kv)
  show ?case
    unfolding kv
    by (auto simp: case_prod_beta Cons.IH repo_exists_iff)
qed

lemma repoList_room_distinct:
  "distinct repos \<Longrightarrow> distinct (fst (repoList_room kvs repos))"
  by (induction kvs repos rule: repoList_room.induct) (auto simp: repo_exists_iff split: prod.splits)

lemma repoList_room_log:
  "snd (repoList_room kvs repos) = map bad_key_log (filter (\<lambda>k. strings_Count k (CHR ''/'') \<noteq> 1) (map fst kvs))"
  by (induction kvs repos rule: repoList_room.induct) (auto simp: repo_exists_iff split: prod.splits)

lemma repoList_rooms_set:
  "set (fst (repoList_rooms rooms repos)) =
     set repos \<union> {k \<in> set (concat (map (\<lambda>(roomID, roomConfig). map fst (Repos roomConfig)) rooms)).
                     strings_Count k (CHR ''/'') = 1}"
proof (induction rooms arbitrary: repos)
  case Nil
  then show ?case by simp
next
  case (Cons room rooms)
  obtain roomID roomConfig where room: "room = (roomID, roomConfig)" by (cases room)
  show ?case
    unfolding room
    by (simp add: case_prod_beta Cons.IH repoList_room_set) blast
qed

lemma repoList_rooms_distinct:
  "distinct repos \<Longrightarrow> distinct (fst (repoList_rooms rooms repos))"
proof (induction rooms arbitrary: repos)
  case Nil
  then show ?case by simp
next
  case (Cons room rooms)
  obtain roomID roomConfig where room: "room = (roomID, roomConfig)" by (cases room)
  show ?case
    unfolding room
    by (simp add: case_prod_beta Cons.IH Cons.prems repoList_room_distinct)
qed

lemma repoList_rooms_log:
  "snd (repoList_rooms rooms repos) =
     map bad_key_log (filter (\<lambda>k. strings_Count k (CHR ''/'') \<noteq> 1)
        (concat (map (\<lambda>(roomID, roomConfig). map fst (Repos roomConfig)) rooms)))"
proof (induction rooms arbitrary: repos)
  case Nil
  then show ?case by simp
next
  case (Cons room rooms)
  obtain roomID roomConfig where room: "room = (roomID, roomConfig)" by (cases room)
  show ?case
    unfolding room
    by (simp add: case_prod_beta Cons.IH repoList_room_log)
qed

lemma repoList_set:
  "set (fst (repoList s)) = {k \<in> set (config_keys s). strings_Count k (CHR ''/'') = 1}"
  by (simp add: repoList_def config_keys_def repoList_rooms_set)

lemma repoList_distinct: "distinct (fst (repoList s))"
  by (simp add: repoList_def repoList_rooms_distinct)

lemma repoList_log:
  "snd (repoList s) = map bad_key_log (filter (\<lambda>k. strings_Count k (CHR ''/'') \<noteq> 1) (config_keys s))"
  by (simp add: repoList_def config_keys_def repoList_rooms_log)

lemma repoList_Count: "r \<in> set (fst (repoList s)) \<Longrightarrow> strings_Count r (CHR ''/'') = 1"
  by (simp add: repoList_set)

lemma repoList_no_rooms: "Rooms s = [] \<Longrightarrow> repoList s = ([], [])"
  by (simp add: repoList_def)

lemma calls_repoList [simp]: "calls (snd (repoList s)) = []"
  by (simp add: repoList_log calls_def bad_key_log_def filter_empty_conv)

subsection \<open>C1: the repos of a configuration\<close>

text \<open>
  C1, as the code has it. \<^verbatim>\<open>repoList\<close> returns, without duplicates, the repo keys of all
  rooms that split into exactly two segments on \<^verbatim>\<open>/\<close>, that is, that hold exactly one
  \<^verbatim>\<open>/\<close>; it never fails, and it writes one "Bad owner/repo key in config" line for
  each occurrence of any other key and nothing else. A segment may be empty: the code
  counts separators and does not look at the segments.
\<close>

theorem repoList_one_slash_keys:
  "set (fst (repoList s)) = {k \<in> set (config_keys s). length (strings_Split k (CHR ''/'')) = 2}
   \<and> distinct (fst (repoList s))
   \<and> snd (repoList s) =
       map bad_key_log (filter (\<lambda>k. length (strings_Split k (CHR ''/'')) \<noteq> 2) (config_keys s))"
  by (simp add: repoList_set repoList_distinct repoList_log length_Split)

theorem repoList_one_slash_keys_witness:
  "set [''Acme/Widgets'', ''acme/widgets''] =
     {k \<in> set [''Acme/Widgets'', ''justonename'', ''acme/widgets'', ''Acme/Widgets''].
        length (strings_Split k (CHR ''/'')) = 2}
   \<and> distinct [''Acme/Widgets'', ''acme/widgets'']
   \<and> [bad_key_log ''justonename''] =
       map bad_key_log (filter (\<lambda>k. length (strings_Split k (CHR ''/'')) \<noteq> 2)
         [''Acme/Widgets'', ''justonename'', ''acme/widgets'', ''Acme/Widgets''])"
  using repoList_one_slash_keys [of widgets_service]
  by (simp add: widgets_service_def service_with_def room_with_def repoList_def config_keys_def)

text \<open>
  The key \<^verbatim>\<open>acme/\<close> does not split into two non-empty segments, and \<^verbatim>\<open>repoList\<close> keeps
  it without a diagnostic.
\<close>

theorem repoList_keeps_key_with_empty_segment:
  "\<not> spec_two_nonempty_segments ''acme/''
   \<and> repoList (service_with [(''!R1'', room_with [(''acme/'', [''push''])])]) = ([''acme/''], [])"
  by (simp add: spec_two_nonempty_segments_def service_with_def room_with_def repoList_def)

subsection \<open>The collaborators' calls and the bounds of the splits\<close>

lemma githubClientFor_calls:
  "calls (snd (githubClientFor env s userID allowUnauth past)) = [GetTokenForUser (RealmID s) userID]"
  by (simp add: githubClientFor_def calls_def Let_def split: prod.splits option.splits)

lemma find_hook_calls: "calls (snd (find_hook endpoint hooks)) = []"
  by (induction hooks) (auto simp: calls_def split: prod.splits option.splits interface_value.splits)

lemma find_hook_find:
  "fst (find_hook endpoint hooks) = find (\<lambda>h. map_of (hook_Config h) ''url'' = Some (IfaceString endpoint)) hooks"
  by (induction hooks) (auto split: prod.splits option.splits interface_value.splits)

lemma deleteHook_not_index: "fst (deleteHook env s owner repo past) \<noteq> Panics IndexOutOfRange"
  by (simp add: deleteHook_def Let_def split: prod.splits option.splits sum.splits)

lemma Split_two:
  assumes "strings_Count r sep = 1"
  obtains owner repo where "strings_Split r sep = [owner, repo]"
proof -
  from assms have "length (strings_Split r sep) = 2" by (simp add: length_Split)
  then show ?thesis
    using that by (cases "strings_Split r sep" rule: list.exhaust; simp; metis length_0_conv length_Suc_conv)
qed

lemma createHook_in_bounds:
  assumes "strings_Count r (CHR ''/'') = 1"
  shows "fst (createHook env s cli r past) \<noteq> Panics IndexOutOfRange"
proof -
  from assms obtain owner repo where "strings_Split r (CHR ''/'') = [owner, repo]"
    by (rule Split_two)
  then show ?thesis
    by (simp add: createHook_def Let_def split: prod.splits option.splits foreign_error.splits)
qed

lemma createHooks_in_bounds:
  "\<forall>r \<in> set rs. strings_Count r (CHR ''/'') = 1 \<Longrightarrow> fst (createHooks env s cli rs past) \<noteq> Panics IndexOutOfRange"
proof (induction rs arbitrary: past)
  case Nil
  then show ?case by simp
next
  case (Cons r rs)
  have r: "fst (createHook env s cli r past) \<noteq> Panics IndexOutOfRange"
    using Cons.prems by (simp add: createHook_in_bounds)
  have rs: "\<And>past'. fst (createHooks env s cli rs past') \<noteq> Panics IndexOutOfRange"
    using Cons.IH Cons.prems by simp
  show ?case
    using r rs by (auto simp: Let_def case_prod_beta split: outcome.splits option.splits)
qed

lemma removeHooks_in_bounds:
  "\<forall>r \<in> set rs. strings_Count r (CHR ''/'') = 1 \<Longrightarrow> fst (removeHooks env s rs past) \<noteq> Panics IndexOutOfRange"
proof (induction rs arbitrary: past)
  case Nil
  then show ?case by simp
next
  case (Cons r rs)
  from Cons.prems have "strings_Count r (CHR ''/'') = 1" by simp
  then obtain owner repo where split: "strings_Split r (CHR ''/'') = [owner, repo]"
    by (rule Split_two)
  have rs: "\<And>past'. fst (removeHooks env s rs past') \<noteq> Panics IndexOutOfRange"
    using Cons.IH Cons.prems by simp
  show ?case
    using rs deleteHook_not_index [of env s owner repo past]
    by (auto simp: split Let_def case_prod_beta split: outcome.splits option.splits)
qed

lemma Difference_fst: "set (fst (Difference a b)) = set a - set b"
  by (auto simp: Difference_def)

lemma Difference_snd: "set (snd (Difference a b)) = set b - set a"
  by (auto simp: Difference_def)

lemma Register_oldRepos_Count:
  "r \<in> set (fst (Register_oldRepos old)) \<Longrightarrow> strings_Count r (CHR ''/'') = 1"
  by (auto simp: Register_oldRepos_def repoList_Count split: option.splits Service.splits)

lemma Register_hooks_in_bounds:
  "fst (Register_hooks env s cli oldRepos past) \<noteq> Panics IndexOutOfRange"
proof -
  have "\<forall>r \<in> set (fst (Difference (fst (repoList s)) oldRepos)). strings_Count r (CHR ''/'') = 1"
    by (auto simp: Difference_fst repoList_Count)
  then have "\<And>past'. fst (createHooks env s cli (fst (Difference (fst (repoList s)) oldRepos)) past') \<noteq> Panics IndexOutOfRange"
    by (rule createHooks_in_bounds)
  then show ?thesis
    by (auto simp: Register_hooks_def Let_def case_prod_beta split: outcome.splits option.splits)
qed

lemma Register_in_bounds: "fst (Register env s old past) \<noteq> Panics IndexOutOfRange"
  by (simp add: Register_def Let_def case_prod_beta Register_hooks_in_bounds split: outcome.splits option.splits sum.splits)

lemma PostRegister_cleanup_in_bounds:
  assumes "\<forall>r \<in> set oldRepos. strings_Count r (CHR ''/'') = 1"
  shows "fst (PostRegister_cleanup env s oldRepos past) \<noteq> Panics IndexOutOfRange"
proof -
  have "\<forall>r \<in> set (snd (Difference (fst (repoList s)) oldRepos)). strings_Count r (CHR ''/'') = 1"
    using assms by (simp add: Difference_snd)
  then have "\<And>past'. fst (removeHooks env s (snd (Difference (fst (repoList s)) oldRepos)) past') \<noteq> Panics IndexOutOfRange"
    by (rule removeHooks_in_bounds)
  then show ?thesis
    by (auto simp: PostRegister_cleanup_def Let_def case_prod_beta split: outcome.splits option.splits)
qed

lemma PostRegister_in_bounds: "fst (PostRegister env s old past) \<noteq> Panics IndexOutOfRange"
proof (cases old)
  case None
  then show ?thesis by (simp add: PostRegister_def PostRegister_cleanup_in_bounds)
next
  case (Some svc)
  show ?thesis
  proof (cases svc)
    case (GithubWebhookService g)
    have "\<And>past'. fst (PostRegister_cleanup env s (fst (repoList g)) past') \<noteq> Panics IndexOutOfRange"
      by (rule PostRegister_cleanup_in_bounds) (simp add: repoList_Count)
    then show ?thesis
      using Some GithubWebhookService
      by (simp add: PostRegister_def Let_def case_prod_beta)
  next
    case (EchoService e)
    then show ?thesis using Some by (simp add: PostRegister_def)
  qed
qed

subsection \<open>C10: the unchecked indexing of a split repo\<close>

text \<open>
  C10. \<^verbatim>\<open>createHook\<close> reads \<^verbatim>\<open>o[0]\<close> and \<^verbatim>\<open>o[1]\<close>, and the loop of \<^verbatim>\<open>PostRegister\<close>
  reads \<^verbatim>\<open>segs[0]\<close> and \<^verbatim>\<open>segs[1]\<close>, without a check of the length. A repo that
  \<^verbatim>\<open>repoList\<close> returns holds exactly one \<^verbatim>\<open>/\<close>, so it splits into exactly two segments
  and neither read is out of range: \<^verbatim>\<open>createHook\<close> and the delete loop do not panic on
  an index for it, nor does \<^verbatim>\<open>Register\<close> of the configuration or a \<^verbatim>\<open>PostRegister\<close>
  that has it as the old one.
\<close>

theorem repoList_split_in_bounds:
  assumes "r \<in> set (fst (repoList s))"
  shows "(\<exists>owner repo. strings_Split r (CHR ''/'') = [owner, repo])
         \<and> fst (createHook env s' cli r past) \<noteq> Panics IndexOutOfRange
         \<and> fst (removeHooks env s' [r] past) \<noteq> Panics IndexOutOfRange
         \<and> fst (Register env s old past) \<noteq> Panics IndexOutOfRange
         \<and> fst (PostRegister env s' (Some (GithubWebhookService s)) past) \<noteq> Panics IndexOutOfRange"
proof -
  have c: "strings_Count r (CHR ''/'') = 1" using assms by (rule repoList_Count)
  then obtain owner repo where "strings_Split r (CHR ''/'') = [owner, repo]" by (rule Split_two)
  moreover have "fst (removeHooks env s' [r] past) \<noteq> Panics IndexOutOfRange"
    by (rule removeHooks_in_bounds) (simp add: c)
  ultimately show ?thesis
    using c by (simp add: createHook_in_bounds Register_in_bounds PostRegister_in_bounds)
qed

theorem repoList_split_in_bounds_witness:
  "''Acme/Widgets'' \<in> set (fst (repoList widgets_service))
   \<and> strings_Split ''Acme/Widgets'' (CHR ''/'') = [''Acme'', ''Widgets'']
   \<and> fst (createHook env_ok widgets_service (Client ''token'') ''Acme/Widgets'' []) = Returns None
   \<and> fst (PostRegister env_ok (service_with []) (Some (GithubWebhookService widgets_service)) []) = Returns ()"
  using repoList_split_in_bounds [of "''Acme/Widgets''" widgets_service env_ok widgets_service "Client ''token''" "[]" None]
  by (simp add: widgets_service_def service_with_def room_with_def repoList_def env_ok_def createHook_def new_hook_def
       PostRegister_def PostRegister_cleanup_def Difference_def deleteHook_def githubClientFor_def hook_at_def calls_def)

subsection \<open>C9: Register needs a github realm\<close>

text \<open>
  C9. When \<^verbatim>\<open>RealmID\<close> is empty, or the database has no realm under it, or the realm
  is not of type "github", \<^verbatim>\<open>Register\<close> returns an error, and all it has done by then is
  at most the lookup of the realm: no hook is created and no room is joined, whatever the
  token lookup would have answered. So \<^verbatim>\<open>Register\<close> succeeds only with a github realm.
\<close>

theorem Register_requires_github_realm:
  assumes "RealmID s = []
           \<or> (\<exists>err. database_LoadAuthRealm env past (RealmID s) = Inl err)
           \<or> (\<exists>realm. database_LoadAuthRealm env past (RealmID s) = Inr realm \<and> realm_Type realm \<noteq> ''github'')"
  shows "(\<exists>err. fst (Register env s old past) = Returns (Some err))
         \<and> set (snd (Register env s old past)) \<subseteq> {LoadAuthRealm (RealmID s)}"
  using assms
  by (auto simp: Register_def loadRealm_def)

theorem Register_requires_github_realm_witness:
  "database_LoadAuthRealm env_jira_realm [] (RealmID widgets_service) = Inr \<lparr> realm_ID = ''github_realm'', realm_Type = ''jira'' \<rparr>
   \<and> getTokenForUser env_jira_realm [] ''github_realm'' ''@alice:hs'' = (''token'', None)
   \<and> fst (Register env_jira_realm widgets_service None []) \<noteq> Returns None
   \<and> snd (Register env_jira_realm widgets_service None []) = [LoadAuthRealm ''github_realm'']"
  using Register_requires_github_realm [of widgets_service env_jira_realm "[]" None]
  by (simp add: env_jira_realm_def env_ok_def widgets_service_def service_with_def Register_def loadRealm_def)

subsection \<open>C6: the guard on an empty configuration\<close>

lemma createHook_error_Foreign:
  "fst (createHook env s cli r past) \<noteq> Returns (Some (Errorf m))"
  by (auto simp: createHook_def Let_def case_prod_beta split: list.splits option.splits foreign_error.splits)

lemma createHooks_error_Foreign:
  "fst (createHooks env s cli rs past) \<noteq> Returns (Some (Errorf m))"
proof (induction rs arbitrary: past)
  case Nil
  then show ?case by simp
next
  case (Cons r rs)
  show ?case
    using Cons.IH createHook_error_Foreign [of env s cli r past m]
    by (auto simp: Let_def case_prod_beta split: outcome.splits option.splits)
qed

lemma joinRooms_error_Foreign: "fst (joinRooms env rooms past) \<noteq> Some (Errorf m)"
proof (induction rooms arbitrary: past)
  case Nil
  then show ?case by simp
next
  case (Cons room rooms)
  obtain roomID roomConfig where room: "room = (roomID, roomConfig)" by (cases room)
  show ?case
    using Cons.IH by (auto simp: room case_prod_beta split: option.splits)
qed

lemma Register_hooks_guard:
  "fst (Register_hooks env s cli oldRepos past) = Returns (Some (Errorf ''No webhooks specified.''))
   \<longleftrightarrow> fst (repoList s) = [] \<and> set oldRepos - set (fst (repoList s)) = {}"
  using createHooks_error_Foreign [of env s cli _ _ "''No webhooks specified.''"]
        joinRooms_error_Foreign [of env "Rooms s" _  "''No webhooks specified.''"]
  by (auto simp: Register_hooks_def Let_def case_prod_beta Difference_def joinWebhookRooms_def filter_empty_conv
           split: outcome.splits option.splits)

lemma loadRealm_error:
  "fst (loadRealm env s past) \<noteq> Inl (Errorf ''No webhooks specified.'')"
  by (auto simp: loadRealm_def split: sum.splits)

text \<open>
  C6. The guard on the repos is the step of \<^verbatim>\<open>Register\<close> that follows its checks of
  the ids, of the realm and of the client. Where \<^verbatim>\<open>Register\<close> reaches it, it fails with
  "No webhooks specified." exactly when the configuration has no repos and no old repo is
  absent from it, and \<^verbatim>\<open>Register\<close> returns that error from nowhere else. With no repos
  but removals pending it does not fail on this guard.
\<close>

theorem Register_no_webhooks_guard:
  "fst (Register env s old past) = Returns (Some (Errorf ''No webhooks specified.''))
   \<longleftrightarrow> Register_reaches_guard env s past
       \<and> fst (repoList s) = []
       \<and> set (fst (Register_oldRepos old)) - set (fst (repoList s)) = {}"
  using loadRealm_error [of env s past]
  by (auto simp: Register_def Register_reaches_guard_def Let_def case_prod_beta Register_hooks_guard
           split: sum.splits option.splits)

theorem Register_no_webhooks_guard_witness:
  "Register_reaches_guard env_ok (service_with []) []
   \<and> fst (repoList (service_with [])) = []
   \<and> fst (Register_oldRepos None) = []
   \<and> fst (Register env_ok (service_with []) None []) = Returns (Some (Errorf ''No webhooks specified.''))
   \<and> fst (Register_oldRepos (Some (GithubWebhookService widgets_service))) = [''Acme/Widgets'', ''acme/widgets'']
   \<and> fst (Register env_ok (service_with []) (Some (GithubWebhookService widgets_service)) []) = Returns None"
  using Register_no_webhooks_guard [of env_ok "service_with []" None "[]"]
        Register_no_webhooks_guard [of env_ok "service_with []" "Some (GithubWebhookService widgets_service)" "[]"]
  by (simp add: Register_reaches_guard_def env_ok_def service_with_def widgets_service_def room_with_def
        Register_def Register_hooks_def Register_oldRepos_def loadRealm_def githubClientFor_def repoList_def
        Difference_def joinWebhookRooms_def calls_def)

subsection \<open>C5: a hook that already exists\<close>

lemma already_exists_iff: "already_exists errors = list_ex (\<lambda>m. strings_Contains m ''already exists'') errors"
  by (induction errors) auto

lemma createHook_result:
  assumes "strings_Split ownerRepo (CHR ''/'') = owner # repo # segs"
      and "github_CreateHook env past cli owner repo (new_hook s) = (Some res, err)"
  shows "fst (createHook env s cli ownerRepo past)
          = Returns (if conflict_already_exists res err then None else map_option Foreign err)"
  using assms
  by (auto simp: createHook_def Let_def conflict_already_exists_def already_exists_iff
           split: option.splits foreign_error.splits)

lemma createHook_calls:
  assumes "strings_Split ownerRepo (CHR ''/'') = owner # repo # segs"
  shows "calls (snd (createHook env s cli ownerRepo past)) = [CreateHook cli owner repo (new_hook s)]"
  using assms
  by (auto simp: createHook_def Let_def calls_def case_prod_beta split: option.splits foreign_error.splits)

text \<open>
  C5. For a repo that splits and a provider that answers with a response,
  \<^verbatim>\<open>createHook\<close> returns no error when the answer is a 422 whose error detail holds
  "already exists", and returns the provider's error as it is for any other detail of a
  422 and for any other status. So when the provider answers each of two creates of the
  same hook with success or with that conflict, both calls succeed.
\<close>

theorem createHook_conflict_is_success:
  "(strings_Split ownerRepo (CHR ''/'') = owner # repo # segs
      \<and> github_CreateHook env past cli owner repo (new_hook s) = (Some res, err)
    \<longrightarrow> fst (createHook env s cli ownerRepo past)
          = Returns (if conflict_already_exists res err then None else map_option Foreign err))
   \<and> (strings_Split ownerRepo (CHR ''/'') = owner # repo # segs
      \<and> github_CreateHook env past cli owner repo (new_hook s) = (Some res, err)
      \<and> github_CreateHook env (past @ [CreateHook cli owner repo (new_hook s)]) cli owner repo (new_hook s) = (Some res', err')
      \<and> (err = None \<or> conflict_already_exists res err)
      \<and> (err' = None \<or> conflict_already_exists res' err')
    \<longrightarrow> fst (createHook env s cli ownerRepo past) = Returns None
        \<and> fst (createHook env s cli ownerRepo (past @ calls (snd (createHook env s cli ownerRepo past)))) = Returns None)"
  by (auto simp: createHook_result createHook_calls)

theorem createHook_conflict_is_success_witness:
  "strings_Split ''acme/widgets'' (CHR ''/'') = [''acme'', ''widgets'']
   \<and> github_CreateHook env_ok [] (Client ''token'') ''acme'' ''widgets'' (new_hook widgets_service)
       = (Some \<lparr> StatusCode = 201 \<rparr>, None)
   \<and> github_CreateHook env_ok [CreateHook (Client ''token'') ''acme'' ''widgets'' (new_hook widgets_service)]
         (Client ''token'') ''acme'' ''widgets'' (new_hook widgets_service)
       = (Some \<lparr> StatusCode = 422 \<rparr>, Some (ErrorResponse [''Hook already exists on this repository'']))
   \<and> conflict_already_exists \<lparr> StatusCode = 422 \<rparr> (Some (ErrorResponse [''Hook already exists on this repository'']))
   \<and> fst (createHook env_ok widgets_service (Client ''token'') ''acme/widgets'' []) = Returns None
   \<and> fst (createHook env_ok widgets_service (Client ''token'') ''acme/widgets''
            ([] @ calls (snd (createHook env_ok widgets_service (Client ''token'') ''acme/widgets'' [])))) = Returns None"
  using createHook_conflict_is_success [of "''acme/widgets''" "''acme''" "''widgets''" "[]" env_ok "[]" "Client ''token''"
          widgets_service "\<lparr> StatusCode = 201 \<rparr>" None "\<lparr> StatusCode = 422 \<rparr>"
          "Some (ErrorResponse [''Hook already exists on this repository''])"]
  by (simp add: env_ok_def conflict_already_exists_def)

subsection \<open>C7: deleteHook\<close>

text \<open>
  C7. Without a token for the user, \<^verbatim>\<open>deleteHook\<close> returns the error "no authenticated
  client exists for user ID" and calls the provider for nothing: it neither lists nor
  deletes. With a token it lists the hooks of the repo; of the listed hooks it takes the
  first whose \<^verbatim>\<open>url\<close> value is the endpoint (a hook with no \<^verbatim>\<open>url\<close> or with one that
  is not a string is passed over), deletes that hook by its id and returns what the delete
  returned; when no hook has the endpoint it deletes nothing and returns "Failed to find
  hook with endpoint".
\<close>

theorem deleteHook_by_endpoint:
  assumes "getTokenForUser env past (RealmID s) (ClientUserID s) = (token, terr)"
  shows "(token = [] \<longrightarrow>
            fst (deleteHook env s owner repo past) = Returns (Some (Errorf ''no authenticated client exists for user ID''))
            \<and> calls (snd (deleteHook env s owner repo past)) = [GetTokenForUser (RealmID s) (ClientUserID s)])
       \<and> (token \<noteq> [] \<and> github_ListHooks env (past @ [GetTokenForUser (RealmID s) (ClientUserID s)]) (Client token) owner repo = Inr hooks \<longrightarrow>
            (case endpoint_hook s hooks of
               None \<Rightarrow>
                 fst (deleteHook env s owner repo past)
                   = Returns (Some (Errorf (''Failed to find hook with endpoint: '' @ webhookEndpointURL s)))
                 \<and> calls (snd (deleteHook env s owner repo past))
                   = [GetTokenForUser (RealmID s) (ClientUserID s), ListHooks (Client token) owner repo]
             | Some h \<Rightarrow>
                 (case hook_ID h of
                    None \<Rightarrow> fst (deleteHook env s owner repo past) = Panics NilDereference
                  | Some i \<Rightarrow>
                      fst (deleteHook env s owner repo past)
                        = Returns (map_option Foreign
                            (github_DeleteHook env
                               (past @ [GetTokenForUser (RealmID s) (ClientUserID s), ListHooks (Client token) owner repo])
                               (Client token) owner repo i))
                      \<and> calls (snd (deleteHook env s owner repo past))
                        = [GetTokenForUser (RealmID s) (ClientUserID s), ListHooks (Client token) owner repo,
                           DeleteHook (Client token) owner repo i])))"
proof -
  have cli: "fst (githubClientFor env s (ClientUserID s) False past) = (if token \<noteq> [] then Some (Client token) else None)"
    using assms by (simp add: githubClientFor_def Let_def)
  have c1: "calls (snd (githubClientFor env s (ClientUserID s) False past)) = [GetTokenForUser (RealmID s) (ClientUserID s)]"
    by (rule githubClientFor_calls)
  have c1': "filter (\<lambda>e. \<not> is_Log e) (snd (githubClientFor env s (ClientUserID s) False past)) = [GetTokenForUser (RealmID s) (ClientUserID s)]"
    using c1 by (simp add: calls_def)
  have c2: "\<And>hs. filter (\<lambda>e. \<not> is_Log e) (snd (find_hook (webhookEndpointURL s) hs)) = []"
    using find_hook_calls by (simp add: calls_def)
  show ?thesis
    by (auto simp: deleteHook_def Let_def case_prod_beta cli c1 c1' c2 calls_def removing_hook_log_def
          endpoint_hook_def find_hook_find
        split: option.splits)
qed

theorem deleteHook_by_endpoint_witness:
  "getTokenForUser env_no_token [] (RealmID widgets_service) (ClientUserID widgets_service) = ([], Some (OtherError ''no session''))
   \<and> fst (deleteHook env_no_token widgets_service ''acme'' ''widgets'' [])
       = Returns (Some (Errorf ''no authenticated client exists for user ID''))
   \<and> calls (snd (deleteHook env_no_token widgets_service ''acme'' ''widgets'' []))
       = [GetTokenForUser ''github_realm'' ''@alice:hs'']
   \<and> getTokenForUser env_no_hooks [] (RealmID widgets_service) (ClientUserID widgets_service) = (''token'', None)
   \<and> endpoint_hook widgets_service [hook_at 3 (IfaceString ''https://other.example/hook'')] = None
   \<and> fst (deleteHook env_no_hooks widgets_service ''acme'' ''widgets'' [])
       = Returns (Some (Errorf ''Failed to find hook with endpoint: https://neb.example/hook''))
   \<and> calls (snd (deleteHook env_no_hooks widgets_service ''acme'' ''widgets'' []))
       = [GetTokenForUser ''github_realm'' ''@alice:hs'', ListHooks (Client ''token'') ''acme'' ''widgets'']
   \<and> endpoint_hook widgets_service
         [\<lparr> hook_ID = Some 1, hook_Name = Some ''web'', hook_Config = [], hook_Events = [] \<rparr>,
          hook_at 2 (IfaceInt 5),
          hook_at 3 (IfaceString ''https://other.example/hook''),
          hook_at 4 (IfaceString ''https://neb.example/hook''),
          hook_at 5 (IfaceString ''https://neb.example/hook'')]
       = Some (hook_at 4 (IfaceString ''https://neb.example/hook''))
   \<and> fst (deleteHook env_ok widgets_service ''acme'' ''widgets'' []) = Returns None
   \<and> calls (snd (deleteHook env_ok widgets_service ''acme'' ''widgets'' []))
       = [GetTokenForUser ''github_realm'' ''@alice:hs'', ListHooks (Client ''token'') ''acme'' ''widgets'',
          DeleteHook (Client ''token'') ''acme'' ''widgets'' 4]"
  using deleteHook_by_endpoint [where env = env_no_token and past = "[]" and s = widgets_service and token = "[]"
          and terr = "Some (OtherError ''no session'')" and owner = "''acme''" and repo = "''widgets''"]
        deleteHook_by_endpoint [where env = env_no_hooks and past = "[]" and s = widgets_service and token = "''token''"
          and terr = None and owner = "''acme''" and repo = "''widgets''"
          and hooks = "[hook_at 3 (IfaceString ''https://other.example/hook'')]"]
        deleteHook_by_endpoint [where env = env_ok and past = "[]" and s = widgets_service and token = "''token''"
          and terr = None and owner = "''acme''" and repo = "''widgets''"
          and hooks = "[\<lparr> hook_ID = Some 1, hook_Name = Some ''web'', hook_Config = [], hook_Events = [] \<rparr>,
          hook_at 2 (IfaceInt 5),
          hook_at 3 (IfaceString ''https://other.example/hook''),
          hook_at 4 (IfaceString ''https://neb.example/hook''),
          hook_at 5 (IfaceString ''https://neb.example/hook'')]"]
  by (simp add: env_no_token_def env_no_hooks_def env_ok_def widgets_service_def service_with_def endpoint_hook_def hook_at_def)

subsection \<open>C8: an old service that is absent or of another type\<close>

lemma calls_append [simp]: "calls (xs @ ys) = calls xs @ calls ys"
  by (simp add: calls_def)

lemma calls_Nil [simp]: "calls [] = []"
  by (simp add: calls_def)

lemma calls_cast_log [simp]: "calls (cast_log svc # es) = calls es"
  by (simp add: calls_def cast_log_def)

text \<open>
  C8, as the code has it. With no old service, \<^verbatim>\<open>Register\<close> and \<^verbatim>\<open>PostRegister\<close> do
  exactly what they do with an old configuration that has no rooms. With an old service
  that is not a github-webhook service, \<^verbatim>\<open>Register\<close> logs the failed cast and goes on
  with no old repos: it returns what it returns with no old service and makes the same
  calls. \<^verbatim>\<open>PostRegister\<close> does not go on: it logs the failed cast and returns at once,
  with no repo list, no hook removed and no pruning.
\<close>

theorem old_service_absent_or_not_cast:
  assumes "Rooms g = []"
  shows "Register env s None past = Register env s (Some (GithubWebhookService g)) past
         \<and> fst (Register env s (Some (EchoService e)) past) = fst (Register env s None past)
         \<and> calls (snd (Register env s (Some (EchoService e)) past)) = calls (snd (Register env s None past))
         \<and> PostRegister env s None past = PostRegister env s (Some (GithubWebhookService g)) past
         \<and> PostRegister env s (Some (EchoService e)) past = (Returns (), [cast_log (EchoService e)])"
proof -
  have g: "repoList g = ([], [])" using assms by (rule repoList_no_rooms)
  have o: "Register_oldRepos (Some (GithubWebhookService g)) = Register_oldRepos None"
    by (simp add: Register_oldRepos_def g)
  have r1: "Register env s None past = Register env s (Some (GithubWebhookService g)) past"
    unfolding Register_def o by (rule refl)
  have r2: "fst (Register env s (Some (EchoService e)) past) = fst (Register env s None past)"
    by (simp add: Register_def Register_oldRepos_def Let_def case_prod_beta split: sum.splits option.splits)
  have r3: "calls (snd (Register env s (Some (EchoService e)) past)) = calls (snd (Register env s None past))"
    by (simp add: Register_def Register_oldRepos_def Let_def case_prod_beta split: sum.splits option.splits)
  have p1: "PostRegister env s None past = PostRegister env s (Some (GithubWebhookService g)) past"
    by (simp add: PostRegister_def g)
  have p2: "PostRegister env s (Some (EchoService e)) past = (Returns (), [cast_log (EchoService e)])"
    by (simp add: PostRegister_def)
  show ?thesis using r1 r2 r3 p1 p2 by simp
qed

lemma Register_widgets_after_echo:
  "fst (Register env_ok widgets_service (Some (EchoService echo_service)) []) = Returns None
   \<and> calls (snd (Register env_ok widgets_service (Some (EchoService echo_service)) []))
       = [LoadAuthRealm ''github_realm'', GetTokenForUser ''github_realm'' ''@alice:hs'',
          CreateHook (Client ''token'') ''Acme'' ''Widgets'' (new_hook widgets_service),
          CreateHook (Client ''token'') ''acme'' ''widgets'' (new_hook widgets_service),
          JoinRoom ''!R1'', JoinRoom ''!R2'']"
  by code_simp

theorem old_service_absent_or_not_cast_witness:
  "Rooms (service_with []) = []
   \<and> fst (Register env_ok widgets_service None []) = Returns None
   \<and> fst (Register env_ok widgets_service (Some (GithubWebhookService (service_with []))) []) = Returns None
   \<and> calls (snd (Register env_ok widgets_service None []))
       = [LoadAuthRealm ''github_realm'', GetTokenForUser ''github_realm'' ''@alice:hs'',
          CreateHook (Client ''token'') ''Acme'' ''Widgets'' (new_hook widgets_service),
          CreateHook (Client ''token'') ''acme'' ''widgets'' (new_hook widgets_service),
          JoinRoom ''!R1'', JoinRoom ''!R2'']
   \<and> PostRegister env_ok widgets_service (Some (EchoService echo_service)) []
       = (Returns (), [cast_log (EchoService echo_service)])"
proof -
  have r: "Rooms (service_with []) = []" by (simp add: service_with_def)
  show ?thesis
    using r old_service_absent_or_not_cast [OF r, of env_ok widgets_service "[]" echo_service]
          Register_widgets_after_echo
    by simp
qed

text \<open>
  With an old service of another type \<^verbatim>\<open>PostRegister\<close> stops after the log line. For a
  configuration with no rooms it does not delete the service, as it does with no old
  service; for the configuration of the example it does not even list the repos, as the
  missing diagnostic for the bad key shows.
\<close>

theorem PostRegister_returns_on_failed_cast:
  "PostRegister env_ok (service_with []) (Some (EchoService echo_service)) []
     = (Returns (), [cast_log (EchoService echo_service)])
   \<and> PostRegister env_ok (service_with []) None []
     = (Returns (),
        [Log Info ''Removing service as no webhooks are registered.''
           [(''service_type'', FStr ''github-webhook''), (''service_id'', FStr ''svc'')],
         DeleteService ''svc'' None])
   \<and> PostRegister env_ok widgets_service (Some (EchoService echo_service)) []
     = (Returns (), [cast_log (EchoService echo_service)])
   \<and> PostRegister env_ok widgets_service None [] = (Returns (), [bad_key_log ''justonename''])"
  by (simp add: service_with_def widgets_service_def room_with_def env_ok_def PostRegister_def
        PostRegister_cleanup_def repoList_def Difference_def)

subsection \<open>What the loops of OnReceiveWebhook and deleteHook do\<close>

lemma rooms_notified_append [simp]: "rooms_notified (xs @ ys) = rooms_notified xs @ rooms_notified ys"
  by (induction xs rule: rooms_notified.induct) auto

lemma responses_append [simp]: "responses (xs @ ys) = responses xs @ responses ys"
  by (induction xs rule: responses.induct) auto

lemma delete_attempts_append [simp]: "delete_attempts (xs @ ys) = delete_attempts xs @ delete_attempts ys"
  by (induction xs) (auto simp: delete_attempts_def List.map_filter_simps split: option.splits)

lemma delete_attempts_Nil [simp]: "delete_attempts [] = []"
  by (simp add: delete_attempts_def List.map_filter_simps)

lemma delete_attempts_Cons: "delete_attempts (e # es) = (case delete_attempt e of None \<Rightarrow> delete_attempts es | Some r \<Rightarrow> r # delete_attempts es)"
  by (simp add: delete_attempts_def List.map_filter_simps split: option.splits)

lemma notifyRoom_iff: "notifyRoom evType events = (evType \<in> set events)"
  by (induction events) auto

lemma send_notification_obs:
  "rooms_notified (send_notification env evType fullName msg roomID past) = [roomID]"
  "calls (send_notification env evType fullName msg roomID past) = [SendMessageEvent roomID ''m.room.message'' msg]"
  "delete_attempts (send_notification env evType fullName msg roomID past) = []"
  "responses (send_notification env evType fullName msg roomID past) = []"
  by (simp_all add: send_notification_def calls_def delete_attempts_Cons split: option.splits)

lemma notify_repos_obs:
  "fst (notify_repos env evType fullName msg roomID repos past)
     = (filter (\<lambda>(ownerRepo, repoConfig). strings_EqualFold fullName ownerRepo) repos \<noteq> [])
   \<and> rooms_notified (snd (notify_repos env evType fullName msg roomID repos past))
     = map (\<lambda>kv. roomID) (filter (\<lambda>(ownerRepo, repoConfig). strings_EqualFold fullName ownerRepo \<and> evType \<in> set (Events repoConfig)) repos)
   \<and> calls (snd (notify_repos env evType fullName msg roomID repos past))
     = map (\<lambda>kv. SendMessageEvent roomID ''m.room.message'' msg)
         (filter (\<lambda>(ownerRepo, repoConfig). strings_EqualFold fullName ownerRepo \<and> evType \<in> set (Events repoConfig)) repos)
   \<and> delete_attempts (snd (notify_repos env evType fullName msg roomID repos past)) = []
   \<and> responses (snd (notify_repos env evType fullName msg roomID repos past)) = []"
proof (induction repos arbitrary: past)
  case Nil
  then show ?case by simp
next
  case (Cons kv repos)
  obtain ownerRepo repoConfig where kv: "kv = (ownerRepo, repoConfig)" by (cases kv)
  show ?case
    unfolding kv
    by (simp add: Let_def case_prod_unfold Cons.IH notifyRoom_iff send_notification_obs)
qed

lemma notify_rooms_obs:
  "fst (notify_rooms env evType fullName msg rooms past)
     = (concat (map (\<lambda>(roomID, roomConfig).
          map (\<lambda>kv. roomID) (filter (\<lambda>(ownerRepo, repoConfig). strings_EqualFold fullName ownerRepo) (Repos roomConfig))) rooms) \<noteq> [])
   \<and> rooms_notified (snd (notify_rooms env evType fullName msg rooms past))
     = concat (map (\<lambda>(roomID, roomConfig).
          map (\<lambda>kv. roomID)
            (filter (\<lambda>(ownerRepo, repoConfig). strings_EqualFold fullName ownerRepo \<and> evType \<in> set (Events repoConfig))
               (Repos roomConfig))) rooms)
   \<and> calls (snd (notify_rooms env evType fullName msg rooms past))
     = map (\<lambda>roomID. SendMessageEvent roomID ''m.room.message'' msg)
        (concat (map (\<lambda>(roomID, roomConfig).
          map (\<lambda>kv. roomID)
            (filter (\<lambda>(ownerRepo, repoConfig). strings_EqualFold fullName ownerRepo \<and> evType \<in> set (Events repoConfig))
               (Repos roomConfig))) rooms))
   \<and> delete_attempts (snd (notify_rooms env evType fullName msg rooms past)) = []
   \<and> responses (snd (notify_rooms env evType fullName msg rooms past)) = []"
proof (induction rooms arbitrary: past)
  case Nil
  then show ?case by simp
next
  case (Cons room rooms)
  obtain roomID roomConfig where room: "room = (roomID, roomConfig)" by (cases room)
  show ?case
    unfolding room
    by (simp add: Let_def case_prod_unfold Cons.IH notify_repos_obs comp_def)
qed


lemma githubClientFor_obs:
  "delete_attempts (snd (githubClientFor env s userID allowUnauth past)) = []"
  "rooms_notified (snd (githubClientFor env s userID allowUnauth past)) = []"
  "responses (snd (githubClientFor env s userID allowUnauth past)) = []"
  by (simp_all add: githubClientFor_def Let_def case_prod_beta delete_attempts_Cons split: option.splits)

lemma find_hook_obs:
  "delete_attempts (snd (find_hook endpoint hooks)) = []
   \<and> rooms_notified (snd (find_hook endpoint hooks)) = []
   \<and> responses (snd (find_hook endpoint hooks)) = []"
  by (induction hooks)
     (auto simp: case_prod_beta delete_attempts_Cons split: option.splits interface_value.splits)

lemma deleteHook_obs:
  "delete_attempts (snd (deleteHook env s owner repo past)) = [owner @ ''/'' @ repo]"
  "rooms_notified (snd (deleteHook env s owner repo past)) = []"
  "responses (snd (deleteHook env s owner repo past)) = []"
  by (simp_all add: deleteHook_def Let_def case_prod_beta delete_attempts_Cons removing_hook_log_def
        githubClientFor_obs find_hook_obs
      split: option.splits sum.splits)

lemma find_Some_set: "find P xs = Some x \<Longrightarrow> x \<in> set xs"
  by (induction xs) (auto split: if_splits)

lemma deleteHook_returns:
  assumes "hooks_have_IDs env"
  shows "\<exists>err. fst (deleteHook env s owner repo past) = Returns err"
proof -
  have ids: "\<And>past' c hooks h. github_ListHooks env past' c owner repo = Inr hooks \<Longrightarrow> h \<in> set hooks \<Longrightarrow> hook_ID h \<noteq> None"
    using assms unfolding hooks_have_IDs_def by blast
  show ?thesis
    by (auto simp: deleteHook_def Let_def case_prod_beta find_hook_find
             split: option.splits sum.splits dest!: find_Some_set dest: ids)
qed

lemma Split_one: "strings_Split s sep = [b] \<Longrightarrow> s = b"
  by (induction s arbitrary: b) (auto simp: Split_not_Nil split: if_splits list.splits)

lemma Split_join: "strings_Split r sep = [a, b] \<Longrightarrow> a @ [sep] @ b = r"
  by (induction r arbitrary: a) (auto simp: Split_not_Nil split: if_splits list.splits dest: Split_one)

lemma calls_Cons: "calls (e # es) = (if is_Log e then calls es else e # calls es)"
  by (simp add: calls_def)

lemma subscribed_rooms_set:
  "set (subscribed_rooms s fullName evType)
     = {roomID. \<exists>roomConfig ownerRepo repoConfig.
          (roomID, roomConfig) \<in> set (Rooms s) \<and> (ownerRepo, repoConfig) \<in> set (Repos roomConfig)
          \<and> strings_EqualFold fullName ownerRepo \<and> evType \<in> set (Events repoConfig)}"
  by (fastforce simp: subscribed_rooms_def)

lemma subscribed_matching: "matching_rooms s fullName = [] \<Longrightarrow> subscribed_rooms s fullName evType = []"
  by (fastforce simp: matching_rooms_def subscribed_rooms_def filter_empty_conv)

lemma notify_rooms_found:
  "fst (notify_rooms env evType fullName msg (Rooms s) past) = (matching_rooms s fullName \<noteq> [])"
  by (simp add: notify_rooms_obs matching_rooms_def)

lemma notify_rooms_notified:
  "rooms_notified (snd (notify_rooms env evType fullName msg (Rooms s) past)) = subscribed_rooms s fullName evType"
  by (simp add: notify_rooms_obs subscribed_rooms_def)

lemma notify_rooms_calls:
  "calls (snd (notify_rooms env evType fullName msg (Rooms s) past))
     = map (\<lambda>roomID. SendMessageEvent roomID ''m.room.message'' msg) (subscribed_rooms s fullName evType)"
  by (simp add: notify_rooms_obs subscribed_rooms_def)

lemma notify_rooms_quiet:
  "delete_attempts (snd (notify_rooms env evType fullName msg (Rooms s) past)) = []"
  "responses (snd (notify_rooms env evType fullName msg (Rooms s) past)) = []"
  by (simp_all add: notify_rooms_obs)

lemma delivering_parse:
  "webhook_OnReceiveRequest (delivering env evType fullName) past req secret
     = Inr (evType, \<lparr> FullName = Some fullName \<rparr>, ''pushed'')"
  by (simp add: delivering_def)

lemma widgets_bindings:
  "subscribed_rooms widgets_service ''acme/widgets'' ''push'' = [''!R1'', ''!R2'']"
  "subscribed_rooms widgets_service ''acme/widgets'' ''pull_request'' = []"
  "matching_rooms widgets_service ''acme/widgets'' = [''!R1'', ''!R2'', ''!R2'']"
  "matching_rooms widgets_service ''acme/ghost'' = []"
  "matching_rooms widgets_service ''justonename/'' = []"
  "matching_rooms widgets_service ''acme/'' = []"
  by code_simp+

lemma no_hooks_have_IDs: "hooks_have_IDs (delivering env_no_hooks evType fullName)"
  by (simp add: hooks_have_IDs_def delivering_def env_no_hooks_def env_ok_def hook_at_def)

lemma splits:
  "strings_Split ''justonename'' (CHR ''/'') = [''justonename'']"
  "strings_Split ''acme/ghost'' (CHR ''/'') = [''acme'', ''ghost'']"
  by simp_all

lemma ghost_not_found:
  "fst (deleteHook (delivering env_no_hooks ''push'' ''acme/ghost'') widgets_service ''acme'' ''ghost''
          [OnReceiveRequest ''payload'' ''s3cret''])
     = Returns (Some (Errorf ''Failed to find hook with endpoint: https://neb.example/hook''))"
  by code_simp

subsection \<open>C2: routing a delivery\<close>



subsection \<open>C3: a delivery for a repo that no room has\<close>




subsection \<open>C4: PostRegister removes the hooks of removed repos and prunes the service\<close>

lemma ServiceDB_after_append: "ServiceDB_after ids (xs @ ys) = ServiceDB_after (ServiceDB_after ids xs) ys"
  by (induction ids xs rule: ServiceDB_after.induct) auto

lemma ServiceDB_after_subset: "set (ServiceDB_after ids es) \<subseteq> set ids"
  by (induction ids es rule: ServiceDB_after.induct) auto

lemma removeHooks_obs:
  assumes "hooks_have_IDs env" and "\<forall>r \<in> set rs. strings_Count r (CHR ''/'') = 1"
  shows "fst (removeHooks env s rs past) = Returns () \<and> delete_attempts (snd (removeHooks env s rs past)) = rs"
  using assms(2)
proof (induction rs arbitrary: past)
  case Nil
  then show ?case by simp
next
  case (Cons r rs)
  from Cons.prems have "strings_Count r (CHR ''/'') = 1" by simp
  then obtain owner repo where sp: "strings_Split r (CHR ''/'') = [owner, repo]"
    by (rule Split_two)
  then have j: "owner @ ''/'' @ repo = r" using Split_join [of r "CHR ''/''" owner repo] by simp
  have np: "\<And>past' p. fst (deleteHook env s owner repo past') \<noteq> Panics p"
    using deleteHook_returns [OF assms(1), of s owner repo] by (metis outcome.distinct(1))
  have ih: "\<And>past'. fst (removeHooks env s rs past') = Returns () \<and> delete_attempts (snd (removeHooks env s rs past')) = rs"
    using Cons.IH Cons.prems by simp
  show ?case
    using j
    by (simp add: sp Let_def case_prod_beta np ih deleteHook_obs delete_attempts_Cons
          split: outcome.splits option.splits)
qed

lemma delete_attempts_repoList [simp]: "delete_attempts (snd (repoList s)) = []"
  by (simp add: repoList_log delete_attempts_def List.map_filter_def bad_key_log_def filter_empty_conv)

lemma Difference_distinct: "distinct b \<Longrightarrow> distinct (snd (Difference a b))"
  by (simp add: Difference_def)

lemma prune_effects_obs:
  "delete_attempts (prune_effects env s past') = []"
  "\<exists>res. DeleteService (service_id s) res \<in> set (prune_effects env s past')"
  "database_DeleteService env past' (service_id s) = None \<Longrightarrow>
     ServiceDB_after ids0 (prune_effects env s past') = removeAll (service_id s) ids0"
  by (simp_all add: prune_effects_def Let_def delete_attempts_Cons split: option.splits)

lemma ServiceDB_after_bad_keys: "ServiceDB_after ids (map bad_key_log ks @ es) = ServiceDB_after ids es"
  by (induction ks) (simp_all add: bad_key_log_def)

lemma PostRegister_cleanup_eq:
  assumes "hooks_have_IDs env" and "\<forall>r \<in> set oldRepos. strings_Count r (CHR ''/'') = 1"
  shows "PostRegister_cleanup env s oldRepos past =
           (Returns (),
            snd (repoList s)
            @ snd (removeHooks env s (snd (Difference (fst (repoList s)) oldRepos)) (past @ calls (snd (repoList s))))
            @ (if fst (repoList s) = []
               then prune_effects env s
                      (past @ calls (snd (repoList s)
                         @ snd (removeHooks env s (snd (Difference (fst (repoList s)) oldRepos)) (past @ calls (snd (repoList s))))))
               else []))"
    and "\<forall>past'. delete_attempts (snd (removeHooks env s (snd (Difference (fst (repoList s)) oldRepos)) past'))
           = snd (Difference (fst (repoList s)) oldRepos)"
proof -
  have "\<forall>r \<in> set (snd (Difference (fst (repoList s)) oldRepos)). strings_Count r (CHR ''/'') = 1"
    using assms(2) by (simp add: Difference_snd)
  from removeHooks_obs [OF assms(1) this]
  have rh: "\<And>past'. fst (removeHooks env s (snd (Difference (fst (repoList s)) oldRepos)) past') = Returns ()
                  \<and> delete_attempts (snd (removeHooks env s (snd (Difference (fst (repoList s)) oldRepos)) past'))
                     = snd (Difference (fst (repoList s)) oldRepos)"
    by simp
  show "PostRegister_cleanup env s oldRepos past =
           (Returns (),
            snd (repoList s)
            @ snd (removeHooks env s (snd (Difference (fst (repoList s)) oldRepos)) (past @ calls (snd (repoList s))))
            @ (if fst (repoList s) = []
               then prune_effects env s
                      (past @ calls (snd (repoList s)
                         @ snd (removeHooks env s (snd (Difference (fst (repoList s)) oldRepos)) (past @ calls (snd (repoList s))))))
               else []))"
    unfolding PostRegister_cleanup_def prune_effects_def
    by (simp add: Let_def case_prod_beta rh del: calls_append calls_repoList)
  show "\<forall>past'. delete_attempts (snd (removeHooks env s (snd (Difference (fst (repoList s)) oldRepos)) past'))
           = snd (Difference (fst (repoList s)) oldRepos)"
    using rh by simp
qed

lemma no_token_have_IDs: "hooks_have_IDs env_no_token"
  by (simp add: hooks_have_IDs_def env_no_token_def env_ok_def hook_at_def)

lemma no_token_db: "\<forall>past'. database_DeleteService env_no_token past' i = None"
  by (simp add: env_no_token_def env_ok_def)

lemma no_token_PostRegister:
  "fst (deleteHook env_no_token (service_with []) ''Acme'' ''Widgets'' [])
     = Returns (Some (Errorf ''no authenticated client exists for user ID''))"
  "delete_attempts (snd (PostRegister env_no_token (service_with []) (Some (GithubWebhookService widgets_service)) []))
     = [''Acme/Widgets'', ''acme/widgets'']"
  "ServiceDB_after [''svc'', ''other'']
       (snd (PostRegister env_no_token (service_with []) (Some (GithubWebhookService widgets_service)) []))
     = [''other'']"
  "delete_attempts (snd (PostRegister env_no_token (service_with [(''!R1'', room_with [(''acme/widgets'', [''push''])])])
       (Some (GithubWebhookService widgets_service)) []))
     = [''Acme/Widgets'']"
  "fst (repoList widgets_service) = [''Acme/Widgets'', ''acme/widgets'']"
  "fst (repoList (service_with [(''!R1'', room_with [(''acme/widgets'', [''push''])])])) = [''acme/widgets'']"
  by code_simp+



end
